theory Spec2Isabelle
  imports Complex_Main
begin

section \<open>Transcript fetcher: data model\<close>

text \<open>
  A shallow embedding of \<^verbatim>\<open>backend/workers/fetch_transcripts.py\<close>. The database
  connection is the pair of tables the worker reads and writes, the provider is a script
  of outcomes, and every exception the worker can meet is a value.
\<close>

datatype FetchStatus = SUCCESS | DISABLED | NOT_FOUND | UNAVAILABLE | RATE_LIMITED | ERROR

text \<open>The \<^verbatim>\<open>.value\<close> of each member of the enum: the text stored in the table.\<close>

fun status_value :: "FetchStatus \<Rightarrow> string" where
  "status_value SUCCESS = ''success''"
| "status_value DISABLED = ''disabled''"
| "status_value NOT_FOUND = ''not_found''"
| "status_value UNAVAILABLE = ''unavailable''"
| "status_value RATE_LIMITED = ''rate_limited''"
| "status_value ERROR = ''error''"

text \<open>
  Exceptions the worker's own calls raise: TypeError from \<^verbatim>\<open>str.join\<close> on an item
  that is not a string; ValueError, with its message, from \<^verbatim>\<open>time.sleep\<close> on a
  negative length and from the database adapter on a string parameter holding NUL;
  OverflowError, with its message, from \<^verbatim>\<open>time.sleep\<close> on a length out of range and
  from the conversion of a large integer to a float; and the store refusing a negative
  \<^verbatim>\<open>LIMIT\<close>.
\<close>

datatype py_error = TypeError | ValueError string | OverflowError string | InvalidLimit

text \<open>
  A segment is a \<^verbatim>\<open>Dict[str, Any]\<close>: an association list from keys to values. The
  worker only ever asks whether the value under \<^verbatim>\<open>"text"\<close> is a string, so a value
  is a string or something else, left opaque (\<open>'o\<close>).
\<close>

datatype 'o pyval = PyStr string | PyOther 'o

type_synonym 'o segment = "(string \<times> 'o pyval) list"

text \<open>\<^verbatim>\<open>seg.get("text", "")\<close>\<close>

definition seg_get_text :: "'o segment \<Rightarrow> 'o pyval" where
  "seg_get_text seg = (case map_of seg ''text'' of None \<Rightarrow> PyStr '''' | Some v \<Rightarrow> v)"

text \<open>\<^verbatim>\<open>sep.join(items)\<close> raises TypeError at the first item that is not a string.\<close>

fun str_items :: "'o pyval list \<Rightarrow> py_error + string list" where
  "str_items [] = Inr []"
| "str_items (PyOther _ # _) = Inl TypeError"
| "str_items (PyStr s # vs) =
     (case str_items vs of Inl e \<Rightarrow> Inl e | Inr ss \<Rightarrow> Inr (s # ss))"

fun join_strings :: "string \<Rightarrow> string list \<Rightarrow> string" where
  "join_strings sep [] = []"
| "join_strings sep [s] = s"
| "join_strings sep (s # t # ts) = s @ sep @ join_strings sep (t # ts)"

definition py_join :: "string \<Rightarrow> 'o pyval list \<Rightarrow> py_error + string" where
  "py_join sep vs = (case str_items vs of Inl e \<Rightarrow> Inl e | Inr ss \<Rightarrow> Inr (join_strings sep ss))"

text \<open>
  \<^verbatim>\<open>str.strip()\<close>: drops the white space at both ends. The characters of \<open>string\<close>
  are the code points below 256; those of them that \<^verbatim>\<open>str.isspace\<close> accepts are
  listed.
\<close>

definition is_space :: "char \<Rightarrow> bool" where
  "is_space c = ((of_char c :: nat) \<in> {9, 10, 11, 12, 13, 28, 29, 30, 31, 32, 133, 160})"

definition py_strip :: "string \<Rightarrow> string" where
  "py_strip s = rev (dropWhile is_space (rev (dropWhile is_space s)))"

subsection \<open>The store\<close>

text \<open>
  A row of \<^verbatim>\<open>elongoat.youtube_transcripts\<close> (alias \<^verbatim>\<open>t\<close> in the queries). The
  table's declaration is not among the sources; every column but the key is taken as
  nullable, as the queries themselves do (\<^verbatim>\<open>COALESCE(t.fetch_attempts, 1)\<close>), and
  \<^verbatim>\<open>fetch_attempts\<close> is an unbounded integer. Time stamps are integers.
\<close>

record 'o transcript_row =
  t_video_id :: string
  t_language :: "string option"
  t_transcript_text :: "string option"
  t_transcript_json :: "'o segment list option"
  t_fetch_status :: "string option"
  t_error_message :: "string option"
  t_fetch_attempts :: "int option"
  t_fetched_at :: "int option"

text \<open>A row of \<^verbatim>\<open>elongoat.youtube_videos\<close> (alias \<^verbatim>\<open>v\<close>).\<close>

record video_row =
  v_video_id :: string
  v_scraped_at :: int

text \<open>
  The connection stands for the database it is open on: both tables, rows in the order
  the store holds them. The INSERT of the worker does not list \<^verbatim>\<open>fetched_at\<close>, so a
  fresh row takes the column's default; the declaration being absent, the default is a
  parameter of the store, a function of the time of the insert.
\<close>

record 'o conn =
  youtube_videos :: "video_row list"
  youtube_transcripts :: "'o transcript_row list"
  fetched_at_default :: "int \<Rightarrow> int option"

definition find_row :: "string \<Rightarrow> 'o transcript_row list \<Rightarrow> 'o transcript_row option" where
  "find_row vid tbl = find (\<lambda>r. t_video_id r = vid) tbl"

text \<open>SQL's \<^verbatim>\<open>COALESCE(a, b)\<close>.\<close>

fun coalesce :: "'a option \<Rightarrow> 'a option \<Rightarrow> 'a option" where
  "coalesce (Some a) _ = Some a"
| "coalesce None b = b"

section \<open>Persistence: upsert_transcript\<close>

text \<open>
  The \<^verbatim>\<open>DO UPDATE SET\<close> list of the statement, applied to the stored row and the row
  proposed for insertion (\<^verbatim>\<open>EXCLUDED\<close>); \<open>now\<close> is what \<^verbatim>\<open>NOW()\<close> returns. In SQL
  \<^verbatim>\<open>NULL + 1\<close> is \<^verbatim>\<open>NULL\<close>.
\<close>

definition do_update :: "'o transcript_row \<Rightarrow> 'o transcript_row \<Rightarrow> int \<Rightarrow> 'o transcript_row" where
  "do_update stored excluded now = stored
     \<lparr> t_language := t_language excluded,
       t_transcript_text := coalesce (t_transcript_text excluded) (t_transcript_text stored),
       t_transcript_json := coalesce (t_transcript_json excluded) (t_transcript_json stored),
       t_fetch_status := t_fetch_status excluded,
       t_error_message := t_error_message excluded,
       t_fetch_attempts := map_option (\<lambda>n. n + 1) (t_fetch_attempts stored),
       t_fetched_at := Some now \<rparr>"

text \<open>\<^verbatim>\<open>INSERT ... ON CONFLICT (video_id) DO UPDATE\<close>\<close>

fun insert_on_conflict ::
  "'o transcript_row \<Rightarrow> int \<Rightarrow> 'o transcript_row list \<Rightarrow> 'o transcript_row list" where
  "insert_on_conflict excluded now [] = [excluded]"
| "insert_on_conflict excluded now (r # rs) =
     (if t_video_id r = t_video_id excluded then do_update r excluded now # rs
      else r # insert_on_conflict excluded now rs)"

text \<open>
  Lines 163 to 165: \<^verbatim>\<open>transcript_text\<close> stays \<^verbatim>\<open>None\<close> unless \<^verbatim>\<open>transcript\<close> is
  truthy (neither \<^verbatim>\<open>None\<close> nor the empty list).
\<close>

definition flatten_text :: "'o segment list option \<Rightarrow> py_error + string option" where
  "flatten_text transcript =
     (case transcript of
        None \<Rightarrow> Inr None
      | Some segs \<Rightarrow>
          if segs = [] then Inr None
          else (case py_join '' '' (map seg_get_text segs) of
                  Inl e \<Rightarrow> Inl e
                | Inr s \<Rightarrow> Inr (Some (py_strip s))))"

text \<open>\<^verbatim>\<open>Json(transcript) if transcript else None\<close>\<close>

definition json_param :: "'o segment list option \<Rightarrow> 'o segment list option" where
  "json_param transcript =
     (case transcript of None \<Rightarrow> None | Some segs \<Rightarrow> if segs = [] then None else Some segs)"

text \<open>
  The adapter refuses a string parameter that holds the character NUL:
  \<^verbatim>\<open>cur.execute\<close> raises ValueError before anything is sent, and nothing is written.
  The string parameters of the statement are the identifier, the language, the flattened
  text and the error message; the status is one of six fixed words, and the JSON
  parameter is written by \<^verbatim>\<open>json.dumps\<close>, which escapes NUL.
\<close>

definition has_nul :: "string \<Rightarrow> bool" where
  "has_nul s = (CHR 0x00 \<in> set s)"

definition nul_in :: "string option \<Rightarrow> bool" where
  "nul_in p = (case p of None \<Rightarrow> False | Some s \<Rightarrow> has_nul s)"

text \<open>
  \<^verbatim>\<open>upsert_transcript(conn, video_id, language, transcript, status, error_message,
  attempt_count)\<close>, with the clock of the store as one more argument (the parameters
  are \<open>vid\<close>, \<open>lang\<close>, \<open>segs\<close>, \<open>st\<close>, \<open>err\<close> here, their names being fields of
  the result record below). An exception raised while the text is flattened leaves
  before the statement runs; one raised by the adapter leaves the store as it was.
\<close>

definition upsert_transcript ::
  "'o conn \<Rightarrow> string \<Rightarrow> string option \<Rightarrow> 'o segment list option \<Rightarrow> FetchStatus \<Rightarrow>
   string option \<Rightarrow> int \<Rightarrow> int \<Rightarrow> py_error + 'o conn" where
  "upsert_transcript conn vid lang segs st err attempt_count now =
     (case flatten_text segs of
        Inl e \<Rightarrow> Inl e
      | Inr transcript_text \<Rightarrow>
          if has_nul vid \<or> nul_in lang \<or> nul_in transcript_text \<or> nul_in err
          then Inl (ValueError ''A string literal cannot contain NUL (0x00) characters.'')
          else
          Inr (conn \<lparr> youtube_transcripts :=
            insert_on_conflict
              \<lparr> t_video_id = vid,
                t_language = lang,
                t_transcript_text = transcript_text,
                t_transcript_json = json_param segs,
                t_fetch_status = Some (status_value st),
                t_error_message = err,
                t_fetch_attempts = Some attempt_count,
                t_fetched_at = fetched_at_default conn now \<rparr>
              now (youtube_transcripts conn) \<rparr>))"

text \<open>The default of the parameter \<^verbatim>\<open>attempt_count\<close>.\<close>

definition default_attempt_count :: int where
  "default_attempt_count = 1"

text \<open>
  A sequence of writes to one identifier, each with its own outcome and clock, and the
  stored \<^verbatim>\<open>fetch_attempts\<close> read back after each of them (\<open>None\<close>: no row,
  \<open>Some None\<close>: a row holding NULL). The first exception ends the sequence.
\<close>

record 'o write_args =
  w_language :: "string option"
  w_transcript :: "'o segment list option"
  w_status :: FetchStatus
  w_error_message :: "string option"
  w_attempt_count :: int
  w_now :: int

definition stored_attempts :: "'o conn \<Rightarrow> string \<Rightarrow> int option option" where
  "stored_attempts conn vid = map_option t_fetch_attempts (find_row vid (youtube_transcripts conn))"

definition upsert_write :: "'o conn \<Rightarrow> string \<Rightarrow> 'o write_args \<Rightarrow> py_error + 'o conn" where
  "upsert_write conn vid w =
     upsert_transcript conn vid (w_language w) (w_transcript w) (w_status w)
       (w_error_message w) (w_attempt_count w) (w_now w)"

fun attempts_history :: "'o conn \<Rightarrow> string \<Rightarrow> 'o write_args list \<Rightarrow> py_error + int option option list" where
  "attempts_history conn vid [] = Inr []"
| "attempts_history conn vid (w # ws) =
     (case upsert_write conn vid w of
        Inl e \<Rightarrow> Inl e
      | Inr conn' \<Rightarrow>
          (case attempts_history conn' vid ws of
             Inl e \<Rightarrow> Inl e
           | Inr h \<Rightarrow> Inr (stored_attempts conn' vid # h)))"

section \<open>Job selection\<close>

text \<open>
  \<^verbatim>\<open>ORDER BY\<close> as an insertion sort under the given order; rows that compare equal
  keep the order of the table, where SQL promises none.
\<close>

fun insert_by :: "('a \<Rightarrow> 'a \<Rightarrow> bool) \<Rightarrow> 'a \<Rightarrow> 'a list \<Rightarrow> 'a list" where
  "insert_by le x [] = [x]"
| "insert_by le x (y # ys) = (if le x y then x # y # ys else y # insert_by le x ys)"

definition order_by :: "('a \<Rightarrow> 'a \<Rightarrow> bool) \<Rightarrow> 'a list \<Rightarrow> 'a list" where
  "order_by le xs = foldr (insert_by le) xs []"

text \<open>\<^verbatim>\<open>LIMIT n\<close>: the store rejects a negative count.\<close>

definition sql_limit :: "int \<Rightarrow> 'a list \<Rightarrow> py_error + 'a list" where
  "sql_limit n rows = (if n < 0 then Inl InvalidLimit else Inr (take (nat n) rows))"

text \<open>
  \<^verbatim>\<open>fetch_pending_video_ids\<close>: the left join keeps, under \<^verbatim>\<open>t.video_id IS NULL\<close>,
  the videos with no transcript row; latest \<^verbatim>\<open>scraped_at\<close> first.
\<close>

definition fetch_pending_video_ids :: "'o conn \<Rightarrow> int \<Rightarrow> py_error + string list" where
  "fetch_pending_video_ids conn limit =
     sql_limit limit
       (map v_video_id
         (order_by (\<lambda>a b. v_scraped_at b \<le> v_scraped_at a)
           (filter (\<lambda>v. find_row (v_video_id v) (youtube_transcripts conn) = None)
             (youtube_videos conn))))"

text \<open>
  The \<^verbatim>\<open>WHERE\<close> clause of \<^verbatim>\<open>fetch_failed_video_ids\<close>. A NULL status makes
  \<^verbatim>\<open>NOT IN\<close> unknown, and the row is not selected.
\<close>

definition attempts_or_1 :: "'o transcript_row \<Rightarrow> int" where
  "attempts_or_1 t = (case t_fetch_attempts t of None \<Rightarrow> 1 | Some n \<Rightarrow> n)"

definition retry_eligible :: "int \<Rightarrow> 'o transcript_row \<Rightarrow> bool" where
  "retry_eligible max_attempts t =
     (t_transcript_text t = None
      \<and> (case t_fetch_status t of
            None \<Rightarrow> False
          | Some s \<Rightarrow> s \<noteq> ''disabled'' \<and> s \<noteq> ''unavailable'')
      \<and> attempts_or_1 t < max_attempts)"

text \<open>\<^verbatim>\<open>ORDER BY t.fetched_at ASC\<close>: in ascending order the store puts NULL last.\<close>

fun fetched_at_le :: "int option \<Rightarrow> int option \<Rightarrow> bool" where
  "fetched_at_le (Some a) (Some b) = (a \<le> b)"
| "fetched_at_le _ None = True"
| "fetched_at_le None (Some _) = False"

definition fetch_failed_video_ids :: "'o conn \<Rightarrow> int \<Rightarrow> int \<Rightarrow> py_error + (string \<times> int) list" where
  "fetch_failed_video_ids conn limit max_attempts =
     sql_limit limit
       (map (\<lambda>t. (t_video_id t, attempts_or_1 t))
         (order_by (\<lambda>a b. fetched_at_le (t_fetched_at a) (t_fetched_at b))
           (filter (retry_eligible max_attempts) (youtube_transcripts conn))))"

text \<open>The default of the parameter \<^verbatim>\<open>max_attempts\<close>.\<close>

definition default_max_attempts :: int where
  "default_max_attempts = 3"

text \<open>
  The batch a run works on: line 309 of \<^verbatim>\<open>main\<close>,
  \<^verbatim>\<open>video_ids = fetch_pending_video_ids(conn, batch_limit)\<close>. Nothing else in
  \<^verbatim>\<open>main\<close> adds to it, and \<^verbatim>\<open>fetch_failed_video_ids\<close> has no caller.
\<close>

definition main_video_ids :: "'o conn \<Rightarrow> int \<Rightarrow> py_error + string list" where
  "main_video_ids conn batch_limit = fetch_pending_video_ids conn batch_limit"

section \<open>Fetch engine: fetch_transcript_with_retry\<close>

record 'o FetchResult =
  video_id :: string
  status :: FetchStatus
  language :: "string option"
  transcript :: "'o segment list option"
  error_message :: "string option"

text \<open>
  What one \<^verbatim>\<open>api.fetch(...)\<close> followed by \<^verbatim>\<open>to_raw_data()\<close> does: it yields the
  language code and the segments, or raises. An exception is known by the first
  \<^verbatim>\<open>except\<close> clause that takes it, and carries its \<^verbatim>\<open>str(e)\<close>.
\<close>

datatype provider_error =
    TranscriptsDisabled | NoTranscriptFound | NoTranscriptAvailable | NotTranslatable
  | TranslationLanguageNotAvailable | VideoUnavailable | TooManyRequests | OtherException

datatype 'o outcome = Fetched string "'o segment list" | Raised provider_error string

text \<open>
  The provider as a script: the outcome of the call made on attempt \<open>k\<close> (from 0) for
  a video and a list of languages. Each attempt makes exactly one call.
\<close>

type_synonym 'o provider = "string \<Rightarrow> string list \<Rightarrow> nat \<Rightarrow> 'o outcome"

text \<open>What the engine does besides returning: provider calls and completed sleeps, in order.\<close>

datatype effect = ProviderCall | Slept real

text \<open>
  The delays \<^verbatim>\<open>retry_delay\<close> and \<^verbatim>\<open>sleep_seconds\<close> are floats. A real number
  stands for a finite float here (infinities and NaN are not values of the model), and
  \<open>float_max\<close> is the largest finite double.
\<close>

definition float_max :: real where
  "float_max = (2 ^ 53 - 1) * 2 ^ 971"

text \<open>
  \<^verbatim>\<open>time.sleep\<close> first converts the length to the time type of the interpreter and
  raises OverflowError when it does not fit; which lengths do not fit, and the text of
  the exception, depend on the build of the interpreter and are parameters.
\<close>

record platform =
  sleep_overflows :: "real \<Rightarrow> bool"
  sleep_overflow_text :: string

text \<open>
  \<^verbatim>\<open>time.sleep(d)\<close>: OverflowError for a length that does not fit, or that is beyond
  \<open>float_max\<close> (the float is then an infinity, which never fits); ValueError for a
  negative length that fits.
\<close>

definition time_sleep :: "platform \<Rightarrow> real \<Rightarrow> py_error + unit" where
  "time_sleep pf d =
     (if sleep_overflows pf d \<or> float_max < \<bar>d\<bar>
      then Inl (OverflowError (sleep_overflow_text pf))
      else if d < 0 then Inl (ValueError ''sleep length must be non-negative'')
      else Inr ())"

text \<open>
  \<^verbatim>\<open>str(e)\<close> for an exception caught inside the \<^verbatim>\<open>try\<close>. Only what the pacing
  sleep raises gets there; the other two equations are never used.
\<close>

fun error_str :: "py_error \<Rightarrow> string" where
  "error_str (ValueError m) = m"
| "error_str (OverflowError m) = m"
| "error_str TypeError = ''TypeError''"
| "error_str InvalidLimit = ''InvalidLimit''"

text \<open>How one pass through the loop body ends.\<close>

datatype 'o step = Return "'o FetchResult" | Retry string | Propagate py_error

text \<open>
  The body shared by the handlers of \<^verbatim>\<open>TooManyRequests\<close> and \<^verbatim>\<open>Exception\<close>, which
  differ in the status they give up with: \<^verbatim>\<open>last_error = str(e)\<close>, then a sleep of
  \<^verbatim>\<open>retry_delay * (2 ** attempt)\<close> while \<^verbatim>\<open>attempt < max_retries - 1\<close>. The
  product and the sleep are outside every \<^verbatim>\<open>try\<close>: what they raise leaves the
  function.

  The product is a float times an integer. The integer \<^verbatim>\<open>2 ** attempt\<close> is converted
  first, which raises OverflowError from \<open>2 ^ 1024\<close> on. Below that the float product
  is the exact product as long as it is finite, a power of two only moving the exponent;
  beyond \<open>float_max\<close> it is an infinity, which \<open>time_sleep\<close> refuses.
\<close>

definition backoff ::
  "platform \<Rightarrow> string \<Rightarrow> int \<Rightarrow> real \<Rightarrow> nat \<Rightarrow> FetchStatus \<Rightarrow> string \<Rightarrow>
   'o step \<times> effect list" where
  "backoff pf vid max_retries retry_delay attempt final last_error =
     (if int attempt < max_retries - 1 then
        (if 1024 \<le> attempt
         then (Propagate (OverflowError ''int too large to convert to float''), [])
         else
           (let delay = retry_delay * 2 ^ attempt in
            case time_sleep pf delay of
              Inl e \<Rightarrow> (Propagate e, [])
            | Inr _ \<Rightarrow> (Retry last_error, [Slept delay])))
      else
        (Return \<lparr> video_id = vid, status = final, language = None, transcript = None,
                  error_message = Some last_error \<rparr>, []))"

text \<open>
  One pass through the body of the \<^verbatim>\<open>for\<close> loop. The pacing sleep after a fetch is
  inside the \<^verbatim>\<open>try\<close>, so what it raises is taken by \<^verbatim>\<open>except Exception\<close>.
\<close>

definition attempt_step ::
  "platform \<Rightarrow> 'o provider \<Rightarrow> string \<Rightarrow> string list \<Rightarrow> int \<Rightarrow> real \<Rightarrow> real \<Rightarrow> nat \<Rightarrow>
   'o step \<times> effect list" where
  "attempt_step pf api vid languages max_retries retry_delay sleep_seconds attempt =
     (let (s, effs) =
        (case api vid languages attempt of
           Fetched language_code segs \<Rightarrow>
             (case time_sleep pf sleep_seconds of
                Inr _ \<Rightarrow>
                  (Return \<lparr> video_id = vid, status = SUCCESS, language = Some language_code,
                            transcript = Some segs, error_message = None \<rparr>,
                   [Slept sleep_seconds])
              | Inl e \<Rightarrow> backoff pf vid max_retries retry_delay attempt ERROR (error_str e))
         | Raised TranscriptsDisabled m \<Rightarrow>
             (Return \<lparr> video_id = vid, status = DISABLED, language = None,
                       transcript = None, error_message = Some m \<rparr>, [])
         | Raised NoTranscriptFound m \<Rightarrow>
             (Return \<lparr> video_id = vid, status = NOT_FOUND, language = None,
                       transcript = None, error_message = Some m \<rparr>, [])
         | Raised NoTranscriptAvailable m \<Rightarrow>
             (Return \<lparr> video_id = vid, status = NOT_FOUND, language = None,
                       transcript = None, error_message = Some m \<rparr>, [])
         | Raised NotTranslatable m \<Rightarrow>
             (Return \<lparr> video_id = vid, status = NOT_FOUND, language = None,
                       transcript = None, error_message = Some m \<rparr>, [])
         | Raised TranslationLanguageNotAvailable m \<Rightarrow>
             (Return \<lparr> video_id = vid, status = NOT_FOUND, language = None,
                       transcript = None, error_message = Some m \<rparr>, [])
         | Raised VideoUnavailable m \<Rightarrow>
             (Return \<lparr> video_id = vid, status = UNAVAILABLE, language = None,
                       transcript = None, error_message = Some m \<rparr>, [])
         | Raised TooManyRequests m \<Rightarrow>
             backoff pf vid max_retries retry_delay attempt RATE_LIMITED m
         | Raised OtherException m \<Rightarrow>
             backoff pf vid max_retries retry_delay attempt ERROR m)
      in (s, ProviderCall # effs))"

text \<open>\<^verbatim>\<open>last_error or "Unknown error after retries"\<close>: the empty string is falsy too.\<close>

definition last_error_or :: "string option \<Rightarrow> string" where
  "last_error_or last_error =
     (case last_error of
        None \<Rightarrow> ''Unknown error after retries''
      | Some m \<Rightarrow> if m = [] then ''Unknown error after retries'' else m)"

text \<open>
  The \<^verbatim>\<open>for\<close> loop over the attempts still to run, with \<^verbatim>\<open>last_error\<close> as its
  state; once they are used up, the return after the loop.
\<close>

fun retry_loop ::
  "platform \<Rightarrow> 'o provider \<Rightarrow> string \<Rightarrow> string list \<Rightarrow> int \<Rightarrow> real \<Rightarrow> real \<Rightarrow> nat list \<Rightarrow>
   string option \<Rightarrow> (py_error + 'o FetchResult) \<times> effect list" where
  "retry_loop pf api vid languages max_retries retry_delay sleep_seconds [] last_error =
     (Inr \<lparr> video_id = vid, status = ERROR, language = None, transcript = None,
            error_message = Some (last_error_or last_error) \<rparr>, [])"
| "retry_loop pf api vid languages max_retries retry_delay sleep_seconds (attempt # rest) last_error =
     (case attempt_step pf api vid languages max_retries retry_delay sleep_seconds attempt of
        (Return r, effs) \<Rightarrow> (Inr r, effs)
      | (Propagate e, effs) \<Rightarrow> (Inl e, effs)
      | (Retry m, effs) \<Rightarrow>
          (let (res, later) =
             retry_loop pf api vid languages max_retries retry_delay sleep_seconds rest (Some m)
           in (res, effs @ later)))"

text \<open>\<^verbatim>\<open>range(n)\<close>: empty when \<open>n\<close> is not positive.\<close>

definition py_range :: "int \<Rightarrow> nat list" where
  "py_range n = [0..<nat n]"

definition fetch_transcript_with_retry ::
  "platform \<Rightarrow> 'o provider \<Rightarrow> string \<Rightarrow> string list \<Rightarrow> int \<Rightarrow> real \<Rightarrow> real \<Rightarrow>
   (py_error + 'o FetchResult) \<times> effect list" where
  "fetch_transcript_with_retry pf api vid languages max_retries retry_delay sleep_seconds =
     retry_loop pf api vid languages max_retries retry_delay sleep_seconds (py_range max_retries) None"

definition provider_calls :: "effect list \<Rightarrow> nat" where
  "provider_calls effs = length (filter (\<lambda>e. e = ProviderCall) effs)"

fun sleeps :: "effect list \<Rightarrow> real list" where
  "sleeps [] = []"
| "sleeps (ProviderCall # es) = sleeps es"
| "sleeps (Slept d # es) = d # sleeps es"

section \<open>Predicates and sample data for the statements\<close>

text \<open>Text and JSON of a row are both NULL or both present.\<close>

definition paired_null :: "'o transcript_row \<Rightarrow> bool" where
  "paired_null r = ((t_transcript_text r = None) = (t_transcript_json r = None))"

text \<open>
  The segment of the spec's end-to-end scenario, a stored success built from it, and
  stores holding one row.
\<close>

definition demo_segment :: "nat segment" where
  "demo_segment = [(''text'', PyStr ''hi''), (''start'', PyOther 0), (''duration'', PyOther 2)]"

definition demo_row :: "nat transcript_row" where
  "demo_row = \<lparr> t_video_id = ''v1'', t_language = Some ''en'',
      t_transcript_text = Some ''hi'', t_transcript_json = Some [demo_segment],
      t_fetch_status = Some ''success'', t_error_message = None,
      t_fetch_attempts = Some 1, t_fetched_at = Some 3 \<rparr>"

definition failed_row :: "string \<Rightarrow> FetchStatus \<Rightarrow> int \<Rightarrow> nat transcript_row" where
  "failed_row vid st n = \<lparr> t_video_id = vid, t_language = None,
      t_transcript_text = None, t_transcript_json = None,
      t_fetch_status = Some (status_value st), t_error_message = Some ''boom'',
      t_fetch_attempts = Some n, t_fetched_at = Some 3 \<rparr>"

definition one_row_conn :: "nat transcript_row \<Rightarrow> nat conn" where
  "one_row_conn r = \<lparr> youtube_videos = [\<lparr> v_video_id = t_video_id r, v_scraped_at = 1 \<rparr>],
      youtube_transcripts = [r], fetched_at_default = Some \<rparr>"

definition empty_conn :: "nat conn" where
  "empty_conn = \<lparr> youtube_videos = [\<lparr> v_video_id = ''v1'', v_scraped_at = 1 \<rparr>],
      youtube_transcripts = [], fetched_at_default = Some \<rparr>"

definition demo_writes :: "nat write_args list" where
  "demo_writes =
     [\<lparr> w_language = None, w_transcript = None, w_status = RATE_LIMITED,
         w_error_message = Some ''too many'', w_attempt_count = 1, w_now = 10 \<rparr>,
      \<lparr> w_language = None, w_transcript = Some [], w_status = ERROR,
         w_error_message = Some ''boom'', w_attempt_count = 1, w_now = 20 \<rparr>,
      \<lparr> w_language = Some ''en'', w_transcript = Some [demo_segment], w_status = SUCCESS,
         w_error_message = None, w_attempt_count = 1, w_now = 30 \<rparr>]"

text \<open>
  An interpreter whose time type counts nanoseconds in 64 bits: a length fits when it is
  below \<open>2 ^ 63\<close> nanoseconds in size.
\<close>

definition demo_platform :: platform where
  "demo_platform =
     \<lparr> sleep_overflows = (\<lambda>d. 2 ^ 63 \<le> \<bar>d\<bar> * 10 ^ 9),
       sleep_overflow_text = ''timestamp too large to convert to C _PyTime_t'' \<rparr>"

text \<open>A provider that raises the same exception on every call.\<close>

definition always_raises :: "provider_error \<Rightarrow> string \<Rightarrow> nat provider" where
  "always_raises e m = (\<lambda>vid languages k. Raised e m)"

text \<open>
  A store with a stored success (\<open>v1\<close>), four failures of different kinds and attempt
  counts (\<open>v2\<close> to \<open>v5\<close>), and a video with no transcript row (\<open>v6\<close>).
\<close>

definition mixed_conn :: "nat conn" where
  "mixed_conn =
     \<lparr> youtube_videos =
         [\<lparr> v_video_id = ''v1'', v_scraped_at = 1 \<rparr>, \<lparr> v_video_id = ''v2'', v_scraped_at = 2 \<rparr>,
          \<lparr> v_video_id = ''v3'', v_scraped_at = 3 \<rparr>, \<lparr> v_video_id = ''v4'', v_scraped_at = 4 \<rparr>,
          \<lparr> v_video_id = ''v5'', v_scraped_at = 5 \<rparr>, \<lparr> v_video_id = ''v6'', v_scraped_at = 6 \<rparr>],
       youtube_transcripts =
         [demo_row, failed_row ''v2'' RATE_LIMITED 1, failed_row ''v3'' DISABLED 1,
          failed_row ''v4'' NOT_FOUND 1, failed_row ''v5'' ERROR 3],
       fetched_at_default = Some \<rparr>"

section \<open>Lemmas on the upsert\<close>

lemma find_row_insert_absent:
  "t_video_id ex = vid \<Longrightarrow> find_row vid tbl = None \<Longrightarrow>
   find_row vid (insert_on_conflict ex now tbl) = Some ex"
  by (induction tbl) (auto simp: find_row_def)

lemma find_row_insert_present:
  "t_video_id ex = vid \<Longrightarrow> find_row vid tbl = Some r \<Longrightarrow>
   find_row vid (insert_on_conflict ex now tbl) = Some (do_update r ex now)"
  by (induction tbl) (auto simp: find_row_def do_update_def)

lemma find_row_insert_other:
  "vid \<noteq> t_video_id ex \<Longrightarrow>
   find_row vid (insert_on_conflict ex now tbl) = find_row vid tbl"
  by (induction tbl) (auto simp: find_row_def do_update_def)

lemma flatten_text_json_param:
  "flatten_text segs = Inr txt \<Longrightarrow> (txt = None) = (json_param segs = None)"
  by (auto simp: json_param_def flatten_text_def split: option.splits if_splits sum.splits)

lemma coalesce_idem: "coalesce x (coalesce x y) = coalesce x y"
  by (cases x) simp_all

lemma coalesce_self: "coalesce x x = x"
  by (cases x) simp_all

lemma upsert_returns:
  assumes "upsert_transcript conn vid lang segs st err n now = Inr conn'"
  shows "\<exists>flat. flatten_text segs = Inr flat
           \<and> \<not> (has_nul vid \<or> nul_in lang \<or> nul_in flat \<or> nul_in err)
           \<and> conn' = conn \<lparr> youtube_transcripts :=
                insert_on_conflict
                  \<lparr> t_video_id = vid, t_language = lang, t_transcript_text = flat,
                    t_transcript_json = json_param segs,
                    t_fetch_status = Some (status_value st), t_error_message = err,
                    t_fetch_attempts = Some n, t_fetched_at = fetched_at_default conn now \<rparr>
                  now (youtube_transcripts conn) \<rparr>"
  using assms
  by (cases "flatten_text segs") (auto simp: upsert_transcript_def split: if_splits)

text \<open>Whether a write returns depends on its parameters alone, not on the store.\<close>

lemma upsert_returns_again:
  assumes "upsert_transcript conn vid lang segs st err n now = Inr conn'"
  shows "\<exists>conn2. upsert_transcript conn1 vid lang segs st err n now2 = Inr conn2"
proof -
  from upsert_returns [OF assms] obtain flat where
    "flatten_text segs = Inr flat"
    "\<not> (has_nul vid \<or> nul_in lang \<or> nul_in flat \<or> nul_in err)"
    by blast
  then show ?thesis by (simp add: upsert_transcript_def)
qed

lemma upsert_find_row:
  assumes "upsert_transcript conn vid lang segs st err n now = Inr conn'"
  shows "\<exists>flat. flatten_text segs = Inr flat \<and>
    find_row vid (youtube_transcripts conn') =
      (case find_row vid (youtube_transcripts conn) of
         None \<Rightarrow> Some \<lparr> t_video_id = vid, t_language = lang, t_transcript_text = flat,
            t_transcript_json = json_param segs,
            t_fetch_status = Some (status_value st), t_error_message = err,
            t_fetch_attempts = Some n, t_fetched_at = fetched_at_default conn now \<rparr>
       | Some old \<Rightarrow> Some (old \<lparr> t_language := lang,
            t_transcript_text := coalesce flat (t_transcript_text old),
            t_transcript_json := coalesce (json_param segs) (t_transcript_json old),
            t_fetch_status := Some (status_value st), t_error_message := err,
            t_fetch_attempts := map_option (\<lambda>n. n + 1) (t_fetch_attempts old),
            t_fetched_at := Some now \<rparr>))"
proof -
  from upsert_returns [OF assms] obtain flat where f: "flatten_text segs = Inr flat"
    and c: "conn' = conn \<lparr> youtube_transcripts :=
                insert_on_conflict
                  \<lparr> t_video_id = vid, t_language = lang, t_transcript_text = flat,
                    t_transcript_json = json_param segs,
                    t_fetch_status = Some (status_value st), t_error_message = err,
                    t_fetch_attempts = Some n, t_fetched_at = fetched_at_default conn now \<rparr>
                  now (youtube_transcripts conn) \<rparr>"
    by blast
  show ?thesis
  proof (cases "find_row vid (youtube_transcripts conn)")
    case None
    then show ?thesis
      by (simp add: f c find_row_insert_absent)
  next
    case (Some old)
    then show ?thesis
      by (simp add: f c find_row_insert_present do_update_def)
  qed
qed

lemma stored_attempts_first:
  assumes "find_row vid (youtube_transcripts conn) = None"
    and "upsert_write conn vid w = Inr conn'"
  shows "stored_attempts conn' vid = Some (Some (w_attempt_count w))"
  using upsert_find_row [OF assms(2) [unfolded upsert_write_def]] assms(1)
  by (auto simp: stored_attempts_def)

lemma stored_attempts_later:
  assumes "stored_attempts conn vid = Some (Some n)"
    and "upsert_write conn vid w = Inr conn'"
  shows "stored_attempts conn' vid = Some (Some (n + 1))"
  using upsert_find_row [OF assms(2) [unfolded upsert_write_def]] assms(1)
  by (auto simp: stored_attempts_def)

lemma attempts_history_later:
  "stored_attempts conn vid = Some (Some n) \<Longrightarrow> attempts_history conn vid ws = Inr h \<Longrightarrow>
   h = map (\<lambda>k. Some (Some (n + 1 + int k))) [0..<length ws]"
proof (induction ws arbitrary: conn n h)
  case Nil
  then show ?case by simp
next
  case (Cons w ws)
  from Cons.prems(2) obtain conn' h' where
    u: "upsert_write conn vid w = Inr conn'"
    and r: "attempts_history conn' vid ws = Inr h'"
    and h: "h = stored_attempts conn' vid # h'"
    by (auto split: sum.splits)
  have s: "stored_attempts conn' vid = Some (Some (n + 1))"
    by (rule stored_attempts_later [OF Cons.prems(1) u])
  have "h' = map (\<lambda>k. Some (Some (n + 1 + 1 + int k))) [0..<length ws]"
    by (rule Cons.IH [OF s r])
  then show ?case
    by (simp add: h s map_upt_Suc del: upt_Suc add: add.assoc)
qed

section \<open>Lemmas on the fetch engine\<close>

lemma py_range_nonpos: "max_retries \<le> 0 \<Longrightarrow> py_range max_retries = []"
  by (simp add: py_range_def)

lemma py_range_pos: "0 < max_retries \<Longrightarrow> py_range max_retries = 0 # [Suc 0..<nat max_retries]"
  by (simp add: py_range_def upt_conv_Cons)

lemma attempt_step_transient:
  assumes "api vid languages i = Raised e m" and "e = TooManyRequests \<or> e = OtherException"
    and "i < 1024" and "time_sleep pf (retry_delay * 2 ^ i) = Inr ()"
  shows "attempt_step pf api vid languages max_retries retry_delay sleep_seconds i =
     (if int i < max_retries - 1
      then (Retry m, [ProviderCall, Slept (retry_delay * 2 ^ i)])
      else (Return \<lparr> video_id = vid,
               status = (if e = TooManyRequests then RATE_LIMITED else ERROR),
               language = None, transcript = None, error_message = Some m \<rparr>,
            [ProviderCall]))"
  using assms by (auto simp: attempt_step_def backoff_def Let_def)

lemma attempt_step_last:
  assumes "api vid languages i = Raised e m" and "e = TooManyRequests \<or> e = OtherException"
    and "\<not> int i < max_retries - 1"
  shows "attempt_step pf api vid languages max_retries retry_delay sleep_seconds i =
     (Return \<lparr> video_id = vid,
               status = (if e = TooManyRequests then RATE_LIMITED else ERROR),
               language = None, transcript = None, error_message = Some m \<rparr>,
      [ProviderCall])"
  using assms by (auto simp: attempt_step_def backoff_def Let_def)

lemma retry_loop_transient:
  assumes "n \<le> 1025"
    and "\<And>k. k < n - 1 \<Longrightarrow> time_sleep pf (retry_delay * 2 ^ k) = Inr ()"
    and "\<And>k. k < n \<Longrightarrow> api vid languages k = Raised (kind k) (msg k)"
    and "\<And>k. k < n \<Longrightarrow> kind k = TooManyRequests \<or> kind k = OtherException"
    and "n = nat max_retries" and "i < n"
  shows "retry_loop pf api vid languages max_retries retry_delay sleep_seconds [i..<n] le =
     (Inr \<lparr> video_id = vid,
            status = (if kind (n - 1) = TooManyRequests then RATE_LIMITED else ERROR),
            language = None, transcript = None, error_message = Some (msg (n - 1)) \<rparr>,
      concat (map (\<lambda>j. [ProviderCall, Slept (retry_delay * 2 ^ j)]) [i..<n - 1]) @ [ProviderCall])"
  using assms(6)
proof (induction "n - i" arbitrary: i le)
  case 0
  then show ?case by simp
next
  case (Suc d)
  have cons: "[i..<n] = i # [Suc i..<n]"
    using Suc.prems by (simp add: upt_conv_Cons)
  show ?case
  proof (cases "int i < max_retries - 1")
    case True
    then have lt: "Suc i < n" using assms(5) by linarith
    have d: "d = n - Suc i" using Suc.hyps(2) by simp
    have lt': "i < n - 1" using lt by simp
    have small: "i < 1024" using lt' assms(1) by simp
    have step: "attempt_step pf api vid languages max_retries retry_delay sleep_seconds i =
        (Retry (msg i), [ProviderCall, Slept (retry_delay * 2 ^ i)])"
      using attempt_step_transient [of api vid languages i "kind i" "msg i" pf retry_delay
          max_retries sleep_seconds]
        assms(3) [of i] assms(4) [of i] assms(2) [of i] Suc.prems small lt' True
      by simp
    have ih: "retry_loop pf api vid languages max_retries retry_delay sleep_seconds [Suc i..<n] (Some (msg i)) =
     (Inr \<lparr> video_id = vid,
            status = (if kind (n - 1) = TooManyRequests then RATE_LIMITED else ERROR),
            language = None, transcript = None, error_message = Some (msg (n - 1)) \<rparr>,
      concat (map (\<lambda>j. [ProviderCall, Slept (retry_delay * 2 ^ j)]) [Suc i..<n - 1]) @ [ProviderCall])"
      by (rule Suc.hyps(1) [OF d lt])
    have cons': "[i..<n - 1] = i # [Suc i..<n - 1]"
      using lt' by (simp add: upt_conv_Cons)
    have sched: "concat (map (\<lambda>j. [ProviderCall, Slept (retry_delay * 2 ^ j)]) [i..<n - 1]) =
        ProviderCall # Slept (retry_delay * 2 ^ i) #
        concat (map (\<lambda>j. [ProviderCall, Slept (retry_delay * 2 ^ j)]) [Suc i..<n - 1])"
      by (subst cons') simp
    show ?thesis
      by (simp add: cons step ih sched del: upt_Suc One_nat_def)
  next
    case False
    then have fin: "n - 1 = i" using assms(5) Suc.prems by linarith
    then have e: "[Suc i..<n] = []" by simp
    have step: "attempt_step pf api vid languages max_retries retry_delay sleep_seconds i =
     (Return \<lparr> video_id = vid,
               status = (if kind i = TooManyRequests then RATE_LIMITED else ERROR),
               language = None, transcript = None, error_message = Some (msg i) \<rparr>,
      [ProviderCall])"
      using attempt_step_last [of api vid languages i "kind i" "msg i" max_retries pf
          retry_delay sleep_seconds]
        assms(3) [of i] assms(4) [of i] Suc.prems False
      by simp
    show ?thesis
      by (simp add: cons step e fin del: upt_Suc One_nat_def)
  qed
qed

lemma provider_calls_schedule:
  "provider_calls (concat (map (\<lambda>j. [ProviderCall, Slept (f j)]) xs) @ [ProviderCall]) = Suc (length xs)"
  by (induction xs) (simp_all add: provider_calls_def)

lemma sleeps_schedule:
  "sleeps (concat (map (\<lambda>j. [ProviderCall, Slept (f j)]) xs) @ [ProviderCall]) = map f xs"
  by (induction xs) simp_all

section \<open>Lemmas on job selection\<close>

lemma set_insert_by: "set (insert_by le x ys) = insert x (set ys)"
  by (induction ys) auto

lemma set_order_by: "set (order_by le xs) = set xs"
  by (induction xs) (simp_all add: order_by_def set_insert_by)

lemma sql_limit_subset: "sql_limit n rows = Inr out \<Longrightarrow> set out \<subseteq> set rows"
  by (auto simp: sql_limit_def split: if_splits dest: in_set_takeD)

lemma fetch_failed_origin:
  assumes "fetch_failed_video_ids conn limit max_attempts = Inr rows" and "(vid, n) \<in> set rows"
  shows "\<exists>t \<in> set (youtube_transcripts conn). t_video_id t = vid \<and> retry_eligible max_attempts t"
proof -
  from sql_limit_subset [OF assms(1) [unfolded fetch_failed_video_ids_def]] assms(2)
  have "(vid, n) \<in> set (map (\<lambda>t. (t_video_id t, attempts_or_1 t))
         (order_by (\<lambda>a b. fetched_at_le (t_fetched_at a) (t_fetched_at b))
           (filter (retry_eligible max_attempts) (youtube_transcripts conn))))"
    by blast
  then show ?thesis by (auto simp: set_order_by)
qed

lemma unique_key_row:
  assumes "distinct (map t_video_id tbl)" and "r \<in> set tbl" and "t \<in> set tbl"
    and "t_video_id t = t_video_id r"
  shows "t = r"
  using assms by (meson distinct_map inj_on_def)

lemma fetch_failed_only_eligible:
  assumes "distinct (map t_video_id (youtube_transcripts conn))"
    and "r \<in> set (youtube_transcripts conn)"
    and "fetch_failed_video_ids conn limit max_attempts = Inr rows"
    and "t_video_id r \<in> fst ` set rows"
  shows "retry_eligible max_attempts r"
proof -
  from assms(4) obtain n where "(t_video_id r, n) \<in> set rows" by auto
  from fetch_failed_origin [OF assms(3) this] obtain t where
    t: "t \<in> set (youtube_transcripts conn)" "t_video_id t = t_video_id r"
       "retry_eligible max_attempts t" by blast
  with unique_key_row [OF assms(1) assms(2)] show ?thesis by blast
qed

text \<open>No identifier with a transcript row is in the batch of a run.\<close>

lemma main_never_reselects:
  assumes "main_video_ids conn batch_limit = Inr ids" and "r \<in> set (youtube_transcripts conn)"
  shows "t_video_id r \<notin> set ids"
proof
  assume "t_video_id r \<in> set ids"
  with sql_limit_subset [OF assms(1) [unfolded main_video_ids_def fetch_pending_video_ids_def]]
  have "find_row (t_video_id r) (youtube_transcripts conn) = None"
    by (auto simp: set_order_by)
  with assms(2) show False
    by (auto simp: find_row_def find_None_iff)
qed

section \<open>Sample evaluations used by the witnesses\<close>

lemma demo_find: "find_row ''v1'' (youtube_transcripts (one_row_conn demo_row)) = Some demo_row"
  by (simp add: find_row_def one_row_conn_def demo_row_def)

lemma demo_join: "py_join '' '' (map seg_get_text [demo_segment, demo_segment]) = Inr ''hi hi''"
  by (simp add: py_join_def seg_get_text_def demo_segment_def)

lemma strip_hi: "py_strip '' hi hi  '' = ''hi hi''" "py_strip ''hi hi'' = ''hi hi''"
  by (simp_all add: py_strip_def is_space_def)

lemma demo_history:
  "attempts_history empty_conn ''v1'' demo_writes
     = Inr [Some (Some 1), Some (Some 2), Some (Some 3)]"
  by (simp add: demo_writes_def upsert_write_def upsert_transcript_def flatten_text_def
      py_join_def seg_get_text_def demo_segment_def py_strip_def is_space_def json_param_def
      has_nul_def nul_in_def empty_conn_def stored_attempts_def find_row_def do_update_def)

lemma empty_find: "find_row ''v1'' (youtube_transcripts empty_conn) = None"
  by (simp add: find_row_def empty_conn_def)

lemma demo_first_write:
  "upsert_transcript empty_conn ''v1'' (Some ''en'') (Some [demo_segment]) SUCCESS None 1 10
     = Inr (empty_conn \<lparr> youtube_transcripts := [demo_row \<lparr> t_fetched_at := Some 10 \<rparr>] \<rparr>)"
  by (simp add: upsert_transcript_def flatten_text_def py_join_def seg_get_text_def
      demo_segment_def py_strip_def is_space_def json_param_def has_nul_def nul_in_def
      empty_conn_def demo_row_def)

lemma demo_failed_write:
  "upsert_transcript (one_row_conn demo_row) ''v1'' None None RATE_LIMITED (Some ''too many'') 1 9
     = Inr ((one_row_conn demo_row) \<lparr> youtube_transcripts :=
         [demo_row \<lparr> t_language := None, t_fetch_status := Some ''rate_limited'',
            t_error_message := Some ''too many'', t_fetch_attempts := Some 2,
            t_fetched_at := Some 9 \<rparr>] \<rparr>)"
  by (simp add: upsert_transcript_def flatten_text_def json_param_def has_nul_def nul_in_def
      one_row_conn_def demo_row_def do_update_def)

lemma demo_refill_write:
  "upsert_transcript (one_row_conn demo_row) ''v1'' (Some ''en'')
       (Some [demo_segment, demo_segment]) SUCCESS None 1 9
     = Inr ((one_row_conn demo_row) \<lparr> youtube_transcripts :=
         [demo_row \<lparr> t_transcript_text := Some ''hi hi'',
            t_transcript_json := Some [demo_segment, demo_segment],
            t_fetch_attempts := Some 2, t_fetched_at := Some 9 \<rparr>] \<rparr>)"
  by (simp add: upsert_transcript_def flatten_text_def py_join_def seg_get_text_def
      demo_segment_def py_strip_def is_space_def json_param_def has_nul_def nul_in_def
      one_row_conn_def demo_row_def do_update_def)

text \<open>A NUL in the error message: the adapter raises and nothing is stored.\<close>

lemma nul_write_raises:
  "upsert_transcript empty_conn ''v1'' None None ERROR (Some [CHR ''a'', CHR 0x00, CHR ''b'']) 1 10
     = Inl (ValueError ''A string literal cannot contain NUL (0x00) characters.'')"
  by (simp add: upsert_transcript_def flatten_text_def has_nul_def nul_in_def)

lemma demo_paired: "paired_null demo_row"
  by (simp add: paired_null_def demo_row_def)

lemma demo_second_write:
  "\<exists>c. upsert_transcript (one_row_conn demo_row) ''v1'' None None ERROR (Some ''boom'') 1 20 = Inr c"
  by (simp add: upsert_transcript_def flatten_text_def has_nul_def nul_in_def)

lemma demo_sleeps:
  "time_sleep demo_platform 2 = Inr ()" "time_sleep demo_platform 4 = Inr ()"
  by (simp_all add: time_sleep_def demo_platform_def float_max_def)

lemma upt_0_2: "[0..<2] = [0, 1]"
  by (simp add: upt_rec)

lemma mixed_failed:
  "fetch_failed_video_ids mixed_conn 10 3 = Inr [(''v2'', 1), (''v4'', 1)]"
  by (simp add: fetch_failed_video_ids_def mixed_conn_def demo_row_def failed_row_def
      retry_eligible_def attempts_or_1_def order_by_def sql_limit_def)

lemma mixed_distinct: "distinct (map t_video_id (youtube_transcripts mixed_conn))"
  by (simp add: mixed_conn_def demo_row_def failed_row_def)

text \<open>
  Delays the sleep refuses. A negative base delay: the first back-off sleep raises
  ValueError in the handler, and the exception leaves the function after one provider
  call. A base delay of \<open>10 ^ 10\<close> seconds: the sleep raises OverflowError, likewise. And
  at attempt 1024 the conversion of \<open>2 ^ 1024\<close> raises, whatever the base delay.
\<close>

lemma negative_retry_delay_propagates:
  "fetch_transcript_with_retry demo_platform (always_raises TooManyRequests ''429'')
       ''v1'' [''en''] 3 (- 1) 1
     = (Inl (ValueError ''sleep length must be non-negative''), [ProviderCall])"
  by (simp add: fetch_transcript_with_retry_def py_range_def upt_rec attempt_step_def
      always_raises_def backoff_def time_sleep_def demo_platform_def float_max_def)

lemma huge_retry_delay_propagates:
  "fetch_transcript_with_retry demo_platform (always_raises TooManyRequests ''429'')
       ''v1'' [''en''] 2 (10 ^ 10) 1
     = (Inl (OverflowError ''timestamp too large to convert to C _PyTime_t''), [ProviderCall])"
  by (simp add: fetch_transcript_with_retry_def py_range_def upt_rec attempt_step_def
      always_raises_def backoff_def time_sleep_def demo_platform_def float_max_def)

lemma attempt_1024_propagates:
  "backoff pf vid 1026 0 1024 RATE_LIMITED m
     = (Propagate (OverflowError ''int too large to convert to float''), [])"
  by (simp add: backoff_def)

section \<open>Claims on the persistence layer\<close>

text \<open>
  C1 (coalesce law). A write through \<open>upsert_transcript\<close> to an identifier that already
  has a row, the statement having run (the call returned): when the outcome carries no
  content (\<^verbatim>\<open>transcript\<close> is \<^verbatim>\<open>None\<close> or has no segments) the stored
  \<^verbatim>\<open>transcript_text\<close> and \<^verbatim>\<open>transcript_json\<close> are what they were, whatever they
  were; when it carries segments, both are replaced, by the stripped joined text of the
  segments and by the segment list.
\<close>

theorem upsert_coalesce_law:
  assumes "find_row vid (youtube_transcripts conn) = Some old"
    and "upsert_transcript conn vid lang segs st err n now = Inr conn'"
  shows "\<exists>new. find_row vid (youtube_transcripts conn') = Some new
           \<and> ((segs = None \<or> segs = Some []) \<longrightarrow>
                 t_transcript_text new = t_transcript_text old
               \<and> t_transcript_json new = t_transcript_json old)
           \<and> (\<forall>g gs. segs = Some (g # gs) \<longrightarrow>
                 (\<exists>joined. py_join '' '' (map seg_get_text (g # gs)) = Inr joined
                    \<and> t_transcript_text new = Some (py_strip joined))
               \<and> t_transcript_json new = Some (g # gs))"
proof -
  from upsert_find_row [OF assms(2)] assms(1) obtain flat where
    f: "flatten_text segs = Inr flat"
    and r: "find_row vid (youtube_transcripts conn') =
      Some (old \<lparr> t_language := lang,
            t_transcript_text := coalesce flat (t_transcript_text old),
            t_transcript_json := coalesce (json_param segs) (t_transcript_json old),
            t_fetch_status := Some (status_value st), t_error_message := err,
            t_fetch_attempts := map_option (\<lambda>n. n + 1) (t_fetch_attempts old),
            t_fetched_at := Some now \<rparr>)"
    by auto
  have empty: "segs = None \<or> segs = Some [] \<Longrightarrow> flat = None \<and> json_param segs = None"
    using f by (auto simp: flatten_text_def json_param_def)
  have full: "\<And>g gs. segs = Some (g # gs) \<Longrightarrow>
      (\<exists>joined. py_join '' '' (map seg_get_text (g # gs)) = Inr joined
         \<and> flat = Some (py_strip joined)) \<and> json_param segs = Some (g # gs)"
    using f by (auto simp: flatten_text_def json_param_def split: sum.splits)
  show ?thesis
    using r empty full by (auto simp del: map_eq_Cons_conv list.map)
qed

theorem upsert_coalesce_law_witness:
  "find_row ''v1'' (youtube_transcripts (one_row_conn demo_row)) = Some demo_row
   \<and> (\<exists>conn' new. upsert_transcript (one_row_conn demo_row) ''v1'' None None RATE_LIMITED
                      (Some ''too many'') 1 9 = Inr conn'
         \<and> find_row ''v1'' (youtube_transcripts conn') = Some new
         \<and> t_transcript_text new = Some ''hi''
         \<and> t_transcript_json new = Some [demo_segment])
   \<and> (\<exists>conn' new. upsert_transcript (one_row_conn demo_row) ''v1'' (Some ''en'')
                      (Some [demo_segment, demo_segment]) SUCCESS None 1 9 = Inr conn'
         \<and> find_row ''v1'' (youtube_transcripts conn') = Some new
         \<and> t_transcript_text new = Some ''hi hi''
         \<and> t_transcript_json new = Some [demo_segment, demo_segment])"
  using upsert_coalesce_law [OF demo_find demo_failed_write]
    upsert_coalesce_law [OF demo_find demo_refill_write]
    demo_find demo_failed_write demo_refill_write demo_join
  by (auto simp: strip_hi demo_row_def)

text \<open>
  C2 (attempt counter). \<open>N\<close> writes through \<open>upsert_transcript\<close> to an identifier that
  has no row yet, each of which returned: the first inserts, the others update. Read back
  after each write, \<^verbatim>\<open>fetch_attempts\<close> is the attempt count of the first write, then
  one more after every later write: it never decreases and never skips. When the first
  write used the default count 1, the value after the last write is \<open>N\<close>.
\<close>

theorem fetch_attempts_counts_writes:
  assumes "find_row vid (youtube_transcripts conn) = None"
    and "attempts_history conn vid (w # ws) = Inr h"
  shows "h = map (\<lambda>k. Some (Some (w_attempt_count w + int k))) [0..<Suc (length ws)]
       \<and> (w_attempt_count w = default_attempt_count \<longrightarrow>
            last h = Some (Some (int (length (w # ws)))))"
proof -
  from assms(2) obtain conn' h' where
    u: "upsert_write conn vid w = Inr conn'"
    and r: "attempts_history conn' vid ws = Inr h'"
    and h: "h = stored_attempts conn' vid # h'"
    by (auto split: sum.splits)
  have s: "stored_attempts conn' vid = Some (Some (w_attempt_count w))"
    by (rule stored_attempts_first [OF assms(1) u])
  have e: "h = map (\<lambda>k. Some (Some (w_attempt_count w + int k))) [0..<Suc (length ws)]"
    using attempts_history_later [OF s r]
    by (simp add: h s map_upt_Suc del: upt_Suc add: add.assoc)
  have "last (map (\<lambda>k. Some (Some (w_attempt_count w + int k))) [0..<Suc (length ws)])
      = Some (Some (w_attempt_count w + int (length ws)))"
    by simp
  then show ?thesis using e by (simp add: default_attempt_count_def)
qed

theorem fetch_attempts_counts_writes_witness:
  "find_row ''v1'' (youtube_transcripts empty_conn) = None
   \<and> w_attempt_count (hd demo_writes) = default_attempt_count
   \<and> length demo_writes = 3
   \<and> attempts_history empty_conn ''v1'' demo_writes
       = Inr [Some (Some 1), Some (Some 2), Some (Some 3)]
   \<and> [Some (Some 1), Some (Some 2), Some (Some (3::int))]
       = map (\<lambda>k. Some (Some (1 + int k))) [0..<3]
   \<and> last [Some (Some 1), Some (Some 2), Some (Some (3::int))] = Some (Some 3)"
  using fetch_attempts_counts_writes [OF empty_find,
      of "hd demo_writes" "tl demo_writes" "[Some (Some 1), Some (Some 2), Some (Some 3)]"]
    demo_history empty_find
  by (simp add: demo_writes_def default_attempt_count_def upt_rec)

text \<open>
  C7 (idempotence of persisting a success). The same SUCCESS outcome written twice in a
  row: the second write succeeds as the first did, and the row after it has the text,
  the JSON, the key, the language, the status and the error message of the row after the
  first. Only \<^verbatim>\<open>fetch_attempts\<close> (one more, where it is not NULL) and
  \<^verbatim>\<open>fetched_at\<close> (the time of the second write) are set anew.
\<close>

theorem upsert_success_idempotent:
  assumes "upsert_transcript conn vid lang segs SUCCESS err n now1 = Inr conn1"
  shows "\<exists>conn2 r1 r2.
           upsert_transcript conn1 vid lang segs SUCCESS err n now2 = Inr conn2
         \<and> find_row vid (youtube_transcripts conn1) = Some r1
         \<and> find_row vid (youtube_transcripts conn2) = Some r2
         \<and> t_transcript_text r2 = t_transcript_text r1
         \<and> t_transcript_json r2 = t_transcript_json r1
         \<and> t_video_id r2 = t_video_id r1
         \<and> t_language r2 = t_language r1
         \<and> t_fetch_status r2 = t_fetch_status r1
         \<and> t_error_message r2 = t_error_message r1
         \<and> t_fetch_attempts r2 = map_option (\<lambda>k. k + 1) (t_fetch_attempts r1)
         \<and> t_fetched_at r2 = Some now2"
proof -
  from upsert_find_row [OF assms] obtain flat r1 where
    f: "flatten_text segs = Inr flat"
    and r1: "find_row vid (youtube_transcripts conn1) = Some r1"
    and t1: "t_transcript_text r1 = coalesce flat (t_transcript_text r1)"
    and j1: "t_transcript_json r1 = coalesce (json_param segs) (t_transcript_json r1)"
    and m1: "t_language r1 = lang" "t_fetch_status r1 = Some (status_value SUCCESS)"
            "t_error_message r1 = err"
    by (cases "find_row vid (youtube_transcripts conn)") (auto simp: coalesce_idem coalesce_self)
  from upsert_returns_again [OF assms] obtain conn2 where
    u2: "upsert_transcript conn1 vid lang segs SUCCESS err n now2 = Inr conn2"
    by blast
  from upsert_find_row [OF u2] f r1 obtain r2 where
    r2: "find_row vid (youtube_transcripts conn2) = Some r2"
    and e2: "r2 = r1 \<lparr> t_language := lang,
            t_transcript_text := coalesce flat (t_transcript_text r1),
            t_transcript_json := coalesce (json_param segs) (t_transcript_json r1),
            t_fetch_status := Some (status_value SUCCESS), t_error_message := err,
            t_fetch_attempts := map_option (\<lambda>n. n + 1) (t_fetch_attempts r1),
            t_fetched_at := Some now2 \<rparr>"
    by auto
  show ?thesis
    using u2 r1 r2 t1 j1 m1 by (simp add: e2)
qed

theorem upsert_success_idempotent_witness:
  "upsert_transcript empty_conn ''v1'' (Some ''en'') (Some [demo_segment]) SUCCESS None 1 10
     = Inr (empty_conn \<lparr> youtube_transcripts := [demo_row \<lparr> t_fetched_at := Some 10 \<rparr>] \<rparr>)
   \<and> (\<exists>conn2 r2.
         upsert_transcript (empty_conn \<lparr> youtube_transcripts := [demo_row \<lparr> t_fetched_at := Some 10 \<rparr>] \<rparr>)
           ''v1'' (Some ''en'') (Some [demo_segment]) SUCCESS None 1 20 = Inr conn2
       \<and> find_row ''v1'' (youtube_transcripts conn2) = Some r2
       \<and> t_transcript_text r2 = Some ''hi''
       \<and> t_transcript_json r2 = Some [demo_segment]
       \<and> t_fetch_attempts r2 = Some 2
       \<and> t_fetched_at r2 = Some 20)"
  using upsert_success_idempotent [OF demo_first_write, of 20] demo_first_write
  by (auto simp: find_row_def demo_row_def)

text \<open>
  C8 (paired nullness). After a write through \<open>upsert_transcript\<close> the row of the
  identifier has \<^verbatim>\<open>transcript_text\<close> NULL exactly when \<^verbatim>\<open>transcript_json\<close> is
  NULL: always when the write inserted the row, and when it updated a row for which the
  equivalence held before.
\<close>

theorem paired_nullness_after_write:
  assumes "upsert_transcript conn vid lang segs st err n now = Inr conn'"
  shows "(find_row vid (youtube_transcripts conn) = None \<longrightarrow>
            (\<exists>new. find_row vid (youtube_transcripts conn') = Some new \<and> paired_null new))
       \<and> (\<forall>old. find_row vid (youtube_transcripts conn) = Some old \<and> paired_null old \<longrightarrow>
            (\<exists>new. find_row vid (youtube_transcripts conn') = Some new \<and> paired_null new))"
proof -
  from upsert_find_row [OF assms] obtain flat where
    f: "flatten_text segs = Inr flat"
    and r: "find_row vid (youtube_transcripts conn') =
      (case find_row vid (youtube_transcripts conn) of
         None \<Rightarrow> Some \<lparr> t_video_id = vid, t_language = lang, t_transcript_text = flat,
            t_transcript_json = json_param segs,
            t_fetch_status = Some (status_value st), t_error_message = err,
            t_fetch_attempts = Some n, t_fetched_at = fetched_at_default conn now \<rparr>
       | Some old \<Rightarrow> Some (old \<lparr> t_language := lang,
            t_transcript_text := coalesce flat (t_transcript_text old),
            t_transcript_json := coalesce (json_param segs) (t_transcript_json old),
            t_fetch_status := Some (status_value st), t_error_message := err,
            t_fetch_attempts := map_option (\<lambda>n. n + 1) (t_fetch_attempts old),
            t_fetched_at := Some now \<rparr>))"
    by blast
  have p: "(flat = None) = (json_param segs = None)"
    by (rule flatten_text_json_param [OF f])
  show ?thesis
  proof (intro conjI impI allI)
    assume "find_row vid (youtube_transcripts conn) = None"
    then show "\<exists>new. find_row vid (youtube_transcripts conn') = Some new \<and> paired_null new"
      using r p by (simp add: paired_null_def)
  next
    fix old
    assume "find_row vid (youtube_transcripts conn) = Some old \<and> paired_null old"
    then show "\<exists>new. find_row vid (youtube_transcripts conn') = Some new \<and> paired_null new"
      using r p by (cases flat; cases "json_param segs") (auto simp: paired_null_def)
  qed
qed

theorem paired_nullness_after_write_witness:
  "find_row ''v1'' (youtube_transcripts empty_conn) = None
   \<and> (\<exists>c new. upsert_transcript empty_conn ''v1'' (Some ''en'') (Some [demo_segment]) SUCCESS None 1 10 = Inr c
         \<and> find_row ''v1'' (youtube_transcripts c) = Some new \<and> paired_null new)
   \<and> find_row ''v1'' (youtube_transcripts (one_row_conn demo_row)) = Some demo_row
   \<and> paired_null demo_row
   \<and> (\<exists>c new. upsert_transcript (one_row_conn demo_row) ''v1'' None None ERROR (Some ''boom'') 1 20 = Inr c
         \<and> find_row ''v1'' (youtube_transcripts c) = Some new \<and> paired_null new)"
proof -
  from demo_second_write obtain c where
    u: "upsert_transcript (one_row_conn demo_row) ''v1'' None None ERROR (Some ''boom'') 1 20 = Inr c"
    by blast
  show ?thesis
    using paired_nullness_after_write [OF demo_first_write] paired_nullness_after_write [OF u]
      demo_first_write u empty_find demo_find demo_paired
    by simp
qed

section \<open>Claims on the fetch engine\<close>

text \<open>
  C3 (structural-permanent outcomes take one attempt). When a first attempt takes place
  (\<open>max_retries\<close> is at least 1) and the provider raises on it, the engine returns at
  once, after that single provider call and with no sleep, whatever \<open>max_retries\<close>,
  \<open>retry_delay\<close> and \<open>sleep_seconds\<close> are: DISABLED for TranscriptsDisabled, NOT_FOUND
  for NoTranscriptFound, NoTranscriptAvailable, NotTranslatable and
  TranslationLanguageNotAvailable, UNAVAILABLE for VideoUnavailable, each with the text
  of the exception as \<^verbatim>\<open>error_message\<close>.
\<close>

theorem permanent_outcome_single_attempt:
  assumes "0 < max_retries" and "api vid languages 0 = Raised e m"
  shows "(e = TranscriptsDisabled \<longrightarrow>
            fetch_transcript_with_retry pf api vid languages max_retries retry_delay sleep_seconds
            = (Inr \<lparr> video_id = vid, status = DISABLED, language = None, transcript = None,
                     error_message = Some m \<rparr>, [ProviderCall]))
       \<and> (e = NoTranscriptFound \<or> e = NoTranscriptAvailable \<or> e = NotTranslatable
            \<or> e = TranslationLanguageNotAvailable \<longrightarrow>
            fetch_transcript_with_retry pf api vid languages max_retries retry_delay sleep_seconds
            = (Inr \<lparr> video_id = vid, status = NOT_FOUND, language = None, transcript = None,
                     error_message = Some m \<rparr>, [ProviderCall]))
       \<and> (e = VideoUnavailable \<longrightarrow>
            fetch_transcript_with_retry pf api vid languages max_retries retry_delay sleep_seconds
            = (Inr \<lparr> video_id = vid, status = UNAVAILABLE, language = None, transcript = None,
                     error_message = Some m \<rparr>, [ProviderCall]))"
  using assms
  by (auto simp: fetch_transcript_with_retry_def py_range_pos attempt_step_def)

theorem permanent_outcome_single_attempt_witness:
  "(0::int) < 3
   \<and> fetch_transcript_with_retry demo_platform (always_raises TranscriptsDisabled ''off'') ''v1'' [''en''] 3 2 1
       = (Inr \<lparr> video_id = ''v1'', status = DISABLED, language = None, transcript = None,
                error_message = Some ''off'' \<rparr>, [ProviderCall])
   \<and> fetch_transcript_with_retry demo_platform (always_raises NoTranscriptFound ''none'') ''v1'' [''en''] 3 2 1
       = (Inr \<lparr> video_id = ''v1'', status = NOT_FOUND, language = None, transcript = None,
                error_message = Some ''none'' \<rparr>, [ProviderCall])
   \<and> fetch_transcript_with_retry demo_platform (always_raises VideoUnavailable ''gone'') ''v1'' [''en''] 3 2 1
       = (Inr \<lparr> video_id = ''v1'', status = UNAVAILABLE, language = None, transcript = None,
                error_message = Some ''gone'' \<rparr>, [ProviderCall])"
  using permanent_outcome_single_attempt [where pf = demo_platform and max_retries = 3
      and api = "always_raises TranscriptsDisabled ''off''" and vid = "''v1''"
      and languages = "[''en'']" and e = TranscriptsDisabled and m = "''off''"
      and retry_delay = 2 and sleep_seconds = 1]
    permanent_outcome_single_attempt [where pf = demo_platform and max_retries = 3
      and api = "always_raises NoTranscriptFound ''none''" and vid = "''v1''"
      and languages = "[''en'']" and e = NoTranscriptFound and m = "''none''"
      and retry_delay = 2 and sleep_seconds = 1]
    permanent_outcome_single_attempt [where pf = demo_platform and max_retries = 3
      and api = "always_raises VideoUnavailable ''gone''" and vid = "''v1''"
      and languages = "[''en'']" and e = VideoUnavailable and m = "''gone''"
      and retry_delay = 2 and sleep_seconds = 1]
  by (simp add: always_raises_def)

text \<open>
  C4, as stated, at \<open>max_retries = 0\<close>: the provider would raise TooManyRequests on every
  call, yet the engine makes no call and returns ERROR with the text
  "Unknown error after retries", neither RATE_LIMITED nor the text of an error.
\<close>

theorem transient_without_attempts_counterexample:
  "fetch_transcript_with_retry demo_platform (always_raises TooManyRequests ''429'') ''v1'' [''en''] 0 2 1
     = (Inr \<lparr> video_id = ''v1'', status = ERROR, language = None, transcript = None,
              error_message = Some ''Unknown error after retries'' \<rparr>, [])"
  by (simp add: fetch_transcript_with_retry_def py_range_def last_error_or_def)

text \<open>
  C4, amended (bounded exponential back-off). Let \<open>max_retries\<close> be between 1 and 1025,
  let every delay of the schedule, \<open>retry_delay * 2 ^ k\<close> for \<open>k\<close> below
  \<open>max_retries - 1\<close>, be a length the sleep accepts (not negative and within range), and
  let the provider raise TooManyRequests or an unclassified exception on each of the
  \<open>max_retries\<close> attempts (\<open>kind k\<close> and \<open>msg k\<close> are the exception of attempt \<open>k\<close> and
  its text). Then the engine makes exactly \<open>max_retries\<close> provider calls, sleeps
  \<open>retry_delay * 2 ^ k\<close> after attempt \<open>k\<close> for every attempt but the last, and returns
  RATE_LIMITED if the last exception was TooManyRequests and ERROR otherwise, with the
  text of the last exception.
\<close>

theorem transient_backoff_schedule:
  assumes "1 \<le> max_retries" and "max_retries \<le> 1025"
    and "\<And>k. k < nat max_retries - 1 \<Longrightarrow> time_sleep pf (retry_delay * 2 ^ k) = Inr ()"
    and "\<And>k. k < nat max_retries \<Longrightarrow> api vid languages k = Raised (kind k) (msg k)"
    and "\<And>k. k < nat max_retries \<Longrightarrow> kind k = TooManyRequests \<or> kind k = OtherException"
  shows "\<exists>effs. fetch_transcript_with_retry pf api vid languages max_retries retry_delay sleep_seconds =
     (Inr \<lparr> video_id = vid,
            status = (if kind (nat max_retries - 1) = TooManyRequests then RATE_LIMITED else ERROR),
            language = None, transcript = None,
            error_message = Some (msg (nat max_retries - 1)) \<rparr>, effs)
     \<and> effs = concat (map (\<lambda>j. [ProviderCall, Slept (retry_delay * 2 ^ j)])
                 [0..<nat max_retries - 1]) @ [ProviderCall]
     \<and> int (provider_calls effs) = max_retries
     \<and> sleeps effs = map (\<lambda>j. retry_delay * 2 ^ j) [0..<nat max_retries - 1]"
proof -
  have pos: "0 < nat max_retries" using assms(1) by simp
  have bound: "nat max_retries \<le> 1025" using assms(2) by simp
  have "retry_loop pf api vid languages max_retries retry_delay sleep_seconds
      [0..<nat max_retries] None =
     (Inr \<lparr> video_id = vid,
            status = (if kind (nat max_retries - 1) = TooManyRequests then RATE_LIMITED else ERROR),
            language = None, transcript = None,
            error_message = Some (msg (nat max_retries - 1)) \<rparr>,
      concat (map (\<lambda>j. [ProviderCall, Slept (retry_delay * 2 ^ j)]) [0..<nat max_retries - 1])
        @ [ProviderCall])"
    using bound assms(3,4,5) pos by (intro retry_loop_transient) auto
  moreover have "int (Suc (length [0..<nat max_retries - 1])) = max_retries"
    using assms(1) by simp
  ultimately show ?thesis
    by (simp add: fetch_transcript_with_retry_def py_range_def provider_calls_schedule
        sleeps_schedule del: upt_Suc)
qed

theorem transient_backoff_schedule_witness:
  "(1::int) \<le> 3 \<and> (3::int) \<le> 1025
   \<and> time_sleep demo_platform (2 * 2 ^ 0) = Inr ()
   \<and> time_sleep demo_platform (2 * 2 ^ 1) = Inr ()
   \<and> fetch_transcript_with_retry demo_platform (always_raises TooManyRequests ''429'')
         ''v1'' [''en''] 3 2 1
       = (Inr \<lparr> video_id = ''v1'', status = RATE_LIMITED, language = None, transcript = None,
                error_message = Some ''429'' \<rparr>,
          [ProviderCall, Slept 2, ProviderCall, Slept 4, ProviderCall])
   \<and> fetch_transcript_with_retry demo_platform (always_raises OtherException ''reset'')
         ''v1'' [''en''] 3 2 1
       = (Inr \<lparr> video_id = ''v1'', status = ERROR, language = None, transcript = None,
                error_message = Some ''reset'' \<rparr>,
          [ProviderCall, Slept 2, ProviderCall, Slept 4, ProviderCall])"
proof -
  have sl: "\<And>k. k < nat 3 - 1 \<Longrightarrow> time_sleep demo_platform (2 * 2 ^ k) = Inr ()"
  proof -
    fix k :: nat
    assume "k < nat 3 - 1"
    then have "k = 0 \<or> k = 1" by auto
    then show "time_sleep demo_platform (2 * 2 ^ k) = Inr ()"
      using demo_sleeps by auto
  qed
  show ?thesis
    using transient_backoff_schedule [where pf = demo_platform and max_retries = 3
        and retry_delay = 2
        and api = "always_raises TooManyRequests ''429''" and vid = "''v1''"
        and languages = "[''en'']" and kind = "\<lambda>k. TooManyRequests" and msg = "\<lambda>k. ''429''"
        and sleep_seconds = 1, OF _ _ sl]
      transient_backoff_schedule [where pf = demo_platform and max_retries = 3
        and retry_delay = 2
        and api = "always_raises OtherException ''reset''" and vid = "''v1''"
        and languages = "[''en'']" and kind = "\<lambda>k. OtherException" and msg = "\<lambda>k. ''reset''"
        and sleep_seconds = 1, OF _ _ sl]
      demo_sleeps
    by (simp add: always_raises_def upt_0_2)
qed

text \<open>
  C10 (no attempt at all). With \<open>max_retries\<close> zero or negative the loop body never
  runs: the engine returns ERROR with the text "Unknown error after retries" and has
  made no provider call and no sleep.
\<close>

theorem no_attempt_without_retries:
  assumes "max_retries \<le> 0"
  shows "fetch_transcript_with_retry pf api vid languages max_retries retry_delay sleep_seconds
         = (Inr \<lparr> video_id = vid, status = ERROR, language = None, transcript = None,
                  error_message = Some ''Unknown error after retries'' \<rparr>, [])"
  using assms
  by (simp add: fetch_transcript_with_retry_def py_range_nonpos last_error_or_def)

theorem no_attempt_without_retries_witness:
  "(0::int) \<le> 0 \<and> (- 2::int) \<le> 0
   \<and> fetch_transcript_with_retry demo_platform (always_raises TooManyRequests ''429'') ''v1'' [''en''] 0 2 1
       = (Inr \<lparr> video_id = ''v1'', status = ERROR, language = None, transcript = None,
                error_message = Some ''Unknown error after retries'' \<rparr>, [])
   \<and> fetch_transcript_with_retry demo_platform (\<lambda>v l k. Fetched ''en'' [demo_segment]) ''v1'' [''en''] (- 2) 2 1
       = (Inr \<lparr> video_id = ''v1'', status = ERROR, language = None, transcript = None,
                error_message = Some ''Unknown error after retries'' \<rparr>, [])"
  using no_attempt_without_retries [of 0 demo_platform "always_raises TooManyRequests ''429''"
      "''v1''" "[''en'']" 2 1]
    no_attempt_without_retries [of "- 2" demo_platform "\<lambda>v l k. Fetched ''en'' [demo_segment]"
      "''v1''" "[''en'']" 2 1]
  by simp

section \<open>Claims on job selection\<close>

text \<open>
  C5, as stated, for NOT_FOUND: the row of \<open>v4\<close> holds the status \<^verbatim>\<open>not_found\<close>, and
  \<open>fetch_failed_video_ids\<close> returns \<open>v4\<close>.
\<close>

theorem failed_selection_returns_not_found_counterexample:
  "failed_row ''v4'' NOT_FOUND 1 \<in> set (youtube_transcripts mixed_conn)
   \<and> t_fetch_status (failed_row ''v4'' NOT_FOUND 1) = Some (status_value NOT_FOUND)
   \<and> fetch_failed_video_ids mixed_conn 10 default_max_attempts = Inr [(''v2'', 1), (''v4'', 1)]
   \<and> t_video_id (failed_row ''v4'' NOT_FOUND 1) \<in> fst ` set [(''v2'', 1::int), (''v4'', 1)]"
  using mixed_failed
  by (simp add: default_max_attempts_def mixed_conn_def failed_row_def)

text \<open>
  C5, amended. In a store whose transcript rows have distinct keys, a row whose status is
  \<^verbatim>\<open>disabled\<close> or \<^verbatim>\<open>unavailable\<close> is never among the rows
  \<open>fetch_failed_video_ids\<close> returns, whatever its \<^verbatim>\<open>fetch_attempts\<close>, the limit and
  the ceiling.
\<close>

theorem failed_selection_skips_disabled_unavailable:
  assumes "distinct (map t_video_id (youtube_transcripts conn))"
    and "r \<in> set (youtube_transcripts conn)"
    and "t_fetch_status r = Some (status_value DISABLED)
         \<or> t_fetch_status r = Some (status_value UNAVAILABLE)"
    and "fetch_failed_video_ids conn limit max_attempts = Inr rows"
  shows "t_video_id r \<notin> fst ` set rows"
proof
  assume "t_video_id r \<in> fst ` set rows"
  from fetch_failed_only_eligible [OF assms(1) assms(2) assms(4) this] assms(3)
  show False by (auto simp: retry_eligible_def)
qed

theorem failed_selection_skips_disabled_unavailable_witness:
  "distinct (map t_video_id (youtube_transcripts mixed_conn))
   \<and> failed_row ''v3'' DISABLED 1 \<in> set (youtube_transcripts mixed_conn)
   \<and> t_fetch_status (failed_row ''v3'' DISABLED 1) = Some (status_value DISABLED)
   \<and> fetch_failed_video_ids mixed_conn 10 3 = Inr [(''v2'', 1), (''v4'', 1)]
   \<and> ''v3'' \<notin> fst ` set [(''v2'', 1::int), (''v4'', 1)]"
  using failed_selection_skips_disabled_unavailable [OF mixed_distinct _ _ mixed_failed,
      of "failed_row ''v3'' DISABLED 1"] mixed_failed mixed_distinct
  by (simp add: mixed_conn_def failed_row_def)

text \<open>
  C9 (the retry query filters on content). In a store whose transcript rows have
  distinct keys, a row whose \<^verbatim>\<open>transcript_text\<close> is not NULL is never among the rows
  \<open>fetch_failed_video_ids\<close> returns, whatever its status and \<^verbatim>\<open>fetch_attempts\<close>.
\<close>

theorem failed_selection_skips_stored_content:
  assumes "distinct (map t_video_id (youtube_transcripts conn))"
    and "r \<in> set (youtube_transcripts conn)"
    and "t_transcript_text r \<noteq> None"
    and "fetch_failed_video_ids conn limit max_attempts = Inr rows"
  shows "t_video_id r \<notin> fst ` set rows"
proof
  assume "t_video_id r \<in> fst ` set rows"
  from fetch_failed_only_eligible [OF assms(1) assms(2) assms(4) this] assms(3)
  show False by (auto simp: retry_eligible_def)
qed

theorem failed_selection_skips_stored_content_witness:
  "distinct (map t_video_id (youtube_transcripts mixed_conn))
   \<and> demo_row \<in> set (youtube_transcripts mixed_conn)
   \<and> t_transcript_text demo_row \<noteq> None
   \<and> fetch_failed_video_ids mixed_conn 10 3 = Inr [(''v2'', 1), (''v4'', 1)]
   \<and> t_video_id demo_row \<notin> fst ` set [(''v2'', 1::int), (''v4'', 1)]"
  using failed_selection_skips_stored_content [OF mixed_distinct _ _ mixed_failed, of demo_row]
    mixed_failed mixed_distinct
  by (simp add: mixed_conn_def demo_row_def)

text \<open>
  C6, evaluated: the row of \<open>v2\<close> holds RATE_LIMITED with one attempt, below the ceiling
  of 3, and \<open>fetch_failed_video_ids\<close> would return it; the batch of a run is the
  pending video \<open>v6\<close> alone.
\<close>

theorem main_skips_retryable_failed:
  "failed_row ''v2'' RATE_LIMITED 1 \<in> set (youtube_transcripts mixed_conn)
   \<and> attempts_or_1 (failed_row ''v2'' RATE_LIMITED 1) < default_max_attempts
   \<and> fetch_failed_video_ids mixed_conn 25 default_max_attempts = Inr [(''v2'', 1), (''v4'', 1)]
   \<and> main_video_ids mixed_conn 25 = Inr [''v6'']"
  by (simp add: main_video_ids_def fetch_pending_video_ids_def fetch_failed_video_ids_def
      mixed_conn_def demo_row_def failed_row_def retry_eligible_def attempts_or_1_def
      order_by_def sql_limit_def find_row_def default_max_attempts_def)

end
